theory Spec2Isabelle
  imports Complex_Main "HOL-Library.Sublist"
begin

section \<open>WC3 Sounds: a shallow embedding of \<open>src/index.ts\<close>\<close>

text \<open>
  The extension keeps five module-level variables and reacts to host events. The model
  passes the five variables around as a record \<open>State\<close>; everything the code reads from
  outside (the file system, the platform, the JavaScript builtins \<open>JSON.parse\<close> and
  \<open>parseFloat\<close>) is a field of a record \<open>Env\<close>; the value drawn by \<open>Math.random()\<close> and the
  value read by \<open>Date.now()\<close> are arguments of the function that draws or reads them.
  A JavaScript exception is a value \<open>Inl e\<close>; the state a function returns next to it is
  the state at the moment of the throw. JavaScript numbers are modelled by the reals
  with the three non-finite values added (\<open>jsnum\<close>); binary64 rounding is not modelled.
\<close>

subsection \<open>Types\<close>

text \<open>\<open>interface SoundEntry { file: string; line: string }\<close>
  (\<open>file\<close> is a reserved word of the theory language, hence the prefix).\<close>

record SoundEntry =
  entry_file :: string
  entry_line :: string

text \<open>The value type of \<open>categories\<close>: \<open>{ sounds: SoundEntry[] }\<close>.\<close>

record CategoryEntry =
  sounds :: "SoundEntry list"

record PackManifest =
  name :: string
  display_name :: string
  categories :: "string \<rightharpoonup> CategoryEntry"

datatype Category = Greeting | Acknowledge | Complete | Error | Permission | Annoyed

text \<open>The string each member of the union type \<open>Category\<close> is at run time.\<close>

fun category_name :: "Category \<Rightarrow> string" where
  "category_name Greeting = ''greeting''"
| "category_name Acknowledge = ''acknowledge''"
| "category_name Complete = ''complete''"
| "category_name Error = ''error''"
| "category_name Permission = ''permission''"
| "category_name Annoyed = ''annoyed''"

text \<open>The argument of \<open>packForModel\<close>: \<open>{ provider?: string; id?: string; name?: string }\<close>.\<close>

record Model =
  model_provider :: "string option"
  model_id :: "string option"
  model_name :: "string option"

datatype js_error = TypeError | ReadError | SyntaxError

datatype jsnum = NaN | PosInf | NegInf | Fin real

fun isNaN :: "jsnum \<Rightarrow> bool" where
  "isNaN NaN = True"
| "isNaN _ = False"

text \<open>\<open>v >= 0\<close>, \<open>v <= 1\<close>, \<open>v < 0\<close> and \<open>v > 1\<close> on JavaScript numbers: every comparison
  with \<open>NaN\<close> is false.\<close>

fun ge_zero :: "jsnum \<Rightarrow> bool" where
  "ge_zero NaN = False"
| "ge_zero PosInf = True"
| "ge_zero NegInf = False"
| "ge_zero (Fin x) = (x \<ge> 0)"

fun le_one :: "jsnum \<Rightarrow> bool" where
  "le_one NaN = False"
| "le_one PosInf = False"
| "le_one NegInf = True"
| "le_one (Fin x) = (x \<le> 1)"

fun lt_zero :: "jsnum \<Rightarrow> bool" where
  "lt_zero NaN = False"
| "lt_zero PosInf = False"
| "lt_zero NegInf = True"
| "lt_zero (Fin x) = (x < 0)"

fun gt_one :: "jsnum \<Rightarrow> bool" where
  "gt_one NaN = False"
| "gt_one PosInf = True"
| "gt_one NegInf = False"
| "gt_one (Fin x) = (x > 1)"

subsection \<open>State and environment\<close>

text \<open>The module-level \<open>let\<close> variables (lines 50 to 54).\<close>

record State =
  muted :: bool
  volume :: jsnum
  currentPack :: string
  lastPlayed :: "string \<rightharpoonup> string"
  promptTimestamps :: "int list"

definition initial_state :: State where
  "initial_state =
     \<lparr>muted = False, volume = Fin (1/2), currentPack = ''peon'',
      lastPlayed = Map.empty, promptTimestamps = []\<rparr>"

definition ANNOYED_THRESHOLD :: nat where
  "ANNOYED_THRESHOLD = 3"

definition ANNOYED_WINDOW_MS :: int where
  "ANNOYED_WINDOW_MS = 10000"

text \<open>
  What the code reads from outside. \<open>readFileSync\<close> and \<open>JSON_parse\<close> may throw;
  \<open>JSON_parse\<close> returns the manifest the text denotes, or \<open>null\<close> (\<open>None\<close>) for the text
  \<open>null\<close>. The result of \<open>JSON.parse\<close> is taken at the declared type \<open>PackManifest | null\<close>.
\<close>

record Env =
  PACKS_DIR :: string
  IS_MACOS :: bool
  readFileSync :: "string \<Rightarrow> js_error + string"
  JSON_parse :: "string \<Rightarrow> js_error + PackManifest option"
  existsSync :: "string \<Rightarrow> bool"
  parseFloat :: "string \<Rightarrow> jsnum"

subsection \<open>Strings\<close>

text \<open>\<open>String.prototype.toLowerCase\<close> on the ASCII letters; other characters are kept.\<close>

definition toLowerChar :: "char \<Rightarrow> char" where
  "toLowerChar c =
     (let n = (of_char c :: nat) in if 65 \<le> n \<and> n \<le> 90 then char_of (n + 32) else c)"

definition toLowerCase :: "string \<Rightarrow> string" where
  "toLowerCase s = map toLowerChar s"

text \<open>\<open>s.includes(p)\<close> (\<open>includes\<close> is a reserved word of the theory language): \<open>p\<close> occurs in \<open>s\<close> as a contiguous substring.\<close>

fun str_includes :: "string \<Rightarrow> string \<Rightarrow> bool" where
  "str_includes [] p = (p = [])"
| "str_includes (c # cs) p = (prefix p (c # cs) \<or> str_includes cs p)"

text \<open>\<open>path.join\<close> on segments that need no normalisation: joined by the separator.\<close>

fun path_join :: "string list \<Rightarrow> string" where
  "path_join [] = ''.''"
| "path_join [p] = p"
| "path_join (p # q # ps) = p @ ''/'' @ path_join (q # ps)"

subsection \<open>Pack selection by model (lines 61 to 83)\<close>

definition packForModel :: "Model option \<Rightarrow> string" where
  "packForModel model =
     (case model of
        None \<Rightarrow> ''peon''
      | Some m \<Rightarrow>
          let id' = toLowerCase (case model_id m of None \<Rightarrow> '''' | Some x \<Rightarrow> x);
              provider = toLowerCase (case model_provider m of None \<Rightarrow> '''' | Some x \<Rightarrow> x)
          in if str_includes id' ''codex'' \<or> str_includes provider ''codex'' then ''peasant''
             else if str_includes id' ''claude'' \<or> str_includes provider ''anthropic'' then ''peon''
             else ''peon'')"

definition syncPackToModel :: "Model option \<Rightarrow> State \<Rightarrow> State" where
  "syncPackToModel ctx_model s =
     (let newPack = packForModel ctx_model
      in if newPack \<noteq> currentPack s
         then s\<lparr>currentPack := newPack, lastPlayed := Map.empty\<rparr>
         else s)"

subsection \<open>Helpers (lines 87 to 140)\<close>

text \<open>The body of the \<open>try\<close> block of \<open>loadManifest\<close>, with its exceptions.\<close>

definition readManifest :: "Env \<Rightarrow> string \<Rightarrow> js_error + PackManifest option" where
  "readManifest env packName =
     (let manifestPath = path_join [PACKS_DIR env, packName, ''manifest.json'']
      in case readFileSync env manifestPath of
           Inl e \<Rightarrow> Inl e
         | Inr text \<Rightarrow> JSON_parse env text)"

text \<open>\<open>loadManifest\<close>: the \<open>catch\<close> turns every exception of the body into \<open>null\<close>.\<close>

definition loadManifest :: "Env \<Rightarrow> string \<Rightarrow> PackManifest option" where
  "loadManifest env packName =
     (case readManifest env packName of
        Inl e \<Rightarrow> None
      | Inr m \<Rightarrow> m)"

text \<open>Lines 105 and 106: the sounds the draw is made from. \<open>lastFile\<close> is \<open>None\<close> when
  \<open>lastPlayed[category]\<close> is \<open>undefined\<close>, which no file name equals.\<close>

definition candidates :: "SoundEntry list \<Rightarrow> string option \<Rightarrow> SoundEntry list" where
  "candidates snds lastFile =
     (if length snds > 1 then filter (\<lambda>s. Some (entry_file s) \<noteq> lastFile) snds else snds)"

text \<open>\<open>Math.floor(Math.random() * n)\<close>, for the value \<open>r\<close> that \<open>Math.random()\<close> returned
  (a number with \<open>0 \<le> r < 1\<close>).\<close>

definition random_index :: "real \<Rightarrow> nat \<Rightarrow> int" where
  "random_index r n = \<lfloor>r * real n\<rfloor>"

text \<open>
  \<open>pickSound\<close>. An index outside \<open>candidates\<close> reads \<open>undefined\<close>, and \<open>pick.file\<close> then
  throws a \<open>TypeError\<close> before \<open>lastPlayed\<close> is assigned.
\<close>

definition pickSound ::
  "Env \<Rightarrow> real \<Rightarrow> Category \<Rightarrow> State \<Rightarrow> (js_error + SoundEntry option) \<times> State" where
  "pickSound env r category s =
     (case loadManifest env (currentPack s) of
        None \<Rightarrow> (Inr None, s)
      | Some manifest \<Rightarrow>
          (case map_option sounds (categories manifest (category_name category)) of
             None \<Rightarrow> (Inr None, s)
           | Some snds \<Rightarrow>
               if length snds = 0 then (Inr None, s)
               else
                 let lastFile = lastPlayed s (category_name category);
                     cands = candidates snds lastFile;
                     i = random_index r (length cands)
                 in if 0 \<le> i \<and> i < int (length cands)
                    then let pick = cands ! nat i
                         in (Inr (Some pick),
                             s\<lparr>lastPlayed := (lastPlayed s)(category_name category \<mapsto> entry_file pick)\<rparr>)
                    else (Inl TypeError, s)))"

text \<open>What the handlers do to the outside: the process started and the host UI calls.\<close>

datatype Emoji = Castle | Axe | Huff | Swords | CheckMark | Skull

datatype Message = MsgMuted | MsgUnmuted | MsgVolumeSet jsnum | MsgInvalidVolume

datatype Severity = Info | Err

datatype Effect =
    ExecAfplay jsnum string
  | SetStatus Emoji string
  | SetStatusSwitched Emoji string
  | ClearStatusAfter nat
  | Notify Message Severity
  | InputPrompt jsnum

definition playSound ::
  "Env \<Rightarrow> real \<Rightarrow> Category \<Rightarrow> State \<Rightarrow> (js_error + string option) \<times> State \<times> Effect list" where
  "playSound env r category s =
     (if muted s \<or> \<not> IS_MACOS env then (Inr None, s, [])
      else
        case pickSound env r category s of
          (Inl e, s') \<Rightarrow> (Inl e, s', [])
        | (Inr None, s') \<Rightarrow> (Inr None, s', [])
        | (Inr (Some sound), s') \<Rightarrow>
            let soundPath = path_join [PACKS_DIR env, currentPack s', ''sounds'', entry_file sound]
            in if \<not> existsSync env soundPath then (Inr None, s', [])
               else (Inr (Some (entry_line sound)), s', [ExecAfplay (volume s') soundPath]))"

text \<open>\<open>checkAnnoyed\<close>, for the value \<open>now\<close> that \<open>Date.now()\<close> returned.\<close>

definition checkAnnoyed :: "int \<Rightarrow> State \<Rightarrow> bool \<times> State" where
  "checkAnnoyed now s =
     (let ts = filter (\<lambda>t. now - t < ANNOYED_WINDOW_MS) (promptTimestamps s) @ [now]
      in (length ts \<ge> ANNOYED_THRESHOLD, s\<lparr>promptTimestamps := ts\<rparr>))"

definition packEmoji :: "State \<Rightarrow> Emoji" where
  "packEmoji s = (if currentPack s = ''peasant'' then Castle else Axe)"

subsection \<open>The extension's handlers (lines 144 to 255)\<close>

text \<open>
  A handler is an \<open>async\<close> function: it returns the exception its promise is rejected
  with (\<open>Some e\<close>) or \<open>None\<close>, the state it leaves and the effects it had, in order.
\<close>

text \<open>The block every sound handler ends with:
  \<open>if (line) { ctx.ui.setStatus(...); setTimeout(..., ms) }\<close>. The empty string is falsy.\<close>

definition show_line ::
  "Emoji \<Rightarrow> nat \<Rightarrow> (js_error + string option) \<times> State \<times> Effect list
     \<Rightarrow> js_error option \<times> State \<times> Effect list" where
  "show_line emoji ms played =
     (case played of
        (Inl e, s', fx) \<Rightarrow> (Some e, s', fx)
      | (Inr None, s', fx) \<Rightarrow> (None, s', fx)
      | (Inr (Some l), s', fx) \<Rightarrow>
          if l \<noteq> [] then (None, s', fx @ [SetStatus emoji l, ClearStatusAfter ms])
          else (None, s', fx))"

definition on_model_select :: "Env \<Rightarrow> Model option \<Rightarrow> State \<Rightarrow> js_error option \<times> State \<times> Effect list" where
  "on_model_select env event_model s =
     (let newPack = packForModel event_model
      in if newPack \<noteq> currentPack s
         then let s' = s\<lparr>currentPack := newPack, lastPlayed := Map.empty\<rparr>;
                  nm = (case loadManifest env (currentPack s') of
                          None \<Rightarrow> currentPack s'
                        | Some manifest \<Rightarrow> display_name manifest)
              in (None, s', [SetStatusSwitched (packEmoji s') nm, ClearStatusAfter 3000])
         else (None, s, []))"

definition on_session_start ::
  "Env \<Rightarrow> real \<Rightarrow> Model option \<Rightarrow> State \<Rightarrow> js_error option \<times> State \<times> Effect list" where
  "on_session_start env r ctx_model s =
     (let s1 = syncPackToModel ctx_model s
      in show_line (packEmoji s1) 3000 (playSound env r Greeting s1))"

definition on_agent_start ::
  "Env \<Rightarrow> int \<Rightarrow> real \<Rightarrow> Model option \<Rightarrow> State \<Rightarrow> js_error option \<times> State \<times> Effect list" where
  "on_agent_start env now r ctx_model s =
     (let s1 = syncPackToModel ctx_model s;
          (annoyed, s2) = checkAnnoyed now s1
      in if annoyed then show_line Huff 3000 (playSound env r Annoyed s2)
         else show_line Swords 3000 (playSound env r Acknowledge s2))"

definition on_agent_end :: "Env \<Rightarrow> real \<Rightarrow> State \<Rightarrow> js_error option \<times> State \<times> Effect list" where
  "on_agent_end env r s = show_line CheckMark 4000 (playSound env r Complete s)"

definition on_tool_result ::
  "Env \<Rightarrow> real \<Rightarrow> bool \<Rightarrow> State \<Rightarrow> js_error option \<times> State \<times> Effect list" where
  "on_tool_result env r isError s =
     (if isError then show_line Skull 3000 (playSound env r Error s) else (None, s, []))"

text \<open>The handler of \<open>/wc3-mute\<close>; the handler of the shortcut has the same body.\<close>

definition wc3_mute :: "State \<Rightarrow> js_error option \<times> State \<times> Effect list" where
  "wc3_mute s =
     (let s' = s\<lparr>muted := \<not> muted s\<rparr>
      in (None, s', [Notify (if muted s' then MsgMuted else MsgUnmuted) Info]))"

text \<open>The three statements of lines 225 to 227, and again of lines 241 to 243:
  assign \<open>volume\<close>, notify, play a greeting (whose result is dropped).\<close>

definition volume_accept ::
  "Env \<Rightarrow> real \<Rightarrow> jsnum \<Rightarrow> State \<Rightarrow> js_error option \<times> State \<times> Effect list" where
  "volume_accept env r v s =
     (let s1 = s\<lparr>volume := v\<rparr>
      in case playSound env r Greeting s1 of
           (Inl e, s2, fx) \<Rightarrow> (Some e, s2, Notify (MsgVolumeSet (volume s1)) Info # fx)
         | (Inr l, s2, fx) \<Rightarrow> (None, s2, Notify (MsgVolumeSet (volume s1)) Info # fx))"

text \<open>
  The handler of \<open>/wc3-volume\<close>. \<open>args\<close> is the text after the command (the empty string
  is falsy); \<open>input\<close> is what \<open>ctx.ui.input\<close> resolves to if the handler gets as far as
  asking: \<open>None\<close> for \<open>undefined\<close>, a cancelled prompt.
\<close>

definition wc3_volume ::
  "Env \<Rightarrow> real \<Rightarrow> string \<Rightarrow> string option \<Rightarrow> State \<Rightarrow> js_error option \<times> State \<times> Effect list" where
  "wc3_volume env r args input s =
     (if args \<noteq> [] \<and>
         (let v = parseFloat env args in \<not> isNaN v \<and> ge_zero v \<and> le_one v)
      then volume_accept env r (parseFloat env args) s
      else
        case input of
          None \<Rightarrow> (None, s, [InputPrompt (volume s)])
        | Some inp \<Rightarrow>
            let v = parseFloat env inp
            in if isNaN v \<or> lt_zero v \<or> gt_one v
               then (None, s, [InputPrompt (volume s), Notify MsgInvalidVolume Err])
               else case volume_accept env r v s of
                      (e, s', fx) \<Rightarrow> (e, s', InputPrompt (volume s) # fx))"

text \<open>The events the host delivers, each with what the handler reads of it.\<close>

datatype Event =
    ModelSelect "Model option"
  | SessionStart "Model option"
  | AgentStart "Model option" int
  | AgentEnd
  | ToolResult bool
  | CmdMute
  | CmdVolume string "string option"
  | ShortcutMute

fun handle :: "Env \<Rightarrow> real \<Rightarrow> Event \<Rightarrow> State \<Rightarrow> js_error option \<times> State \<times> Effect list" where
  "handle env r (ModelSelect m) s = on_model_select env m s"
| "handle env r (SessionStart m) s = on_session_start env r m s"
| "handle env r (AgentStart m now) s = on_agent_start env now r m s"
| "handle env r AgentEnd s = on_agent_end env r s"
| "handle env r (ToolResult isError) s = on_tool_result env r isError s"
| "handle env r CmdMute s = wc3_mute s"
| "handle env r (CmdVolume args input) s = wc3_volume env r args input s"
| "handle env r ShortcutMute s = wc3_mute s"

subsection \<open>A decimal \<open>parseFloat\<close>\<close>

text \<open>
  \<open>parseFloat\<close> as ECMAScript defines it, on ASCII text: leading white space is skipped,
  the longest prefix that is a \<open>StrDecimalLiteral\<close> is read (a sign, then \<open>Infinity\<close> or
  digits with an optional fraction and an optional exponent), and text with no such
  prefix gives \<open>NaN\<close>. The value is the exact decimal value, not rounded to binary64.
\<close>

definition isDigit :: "char \<Rightarrow> bool" where
  "isDigit c = (let n = (of_char c :: nat) in 48 \<le> n \<and> n \<le> 57)"

definition isWhiteSpace :: "char \<Rightarrow> bool" where
  "isWhiteSpace c = ((of_char c :: nat) \<in> {9, 10, 11, 12, 13, 32})"

definition digitsValue :: "string \<Rightarrow> nat" where
  "digitsValue ds = foldl (\<lambda>a c. 10 * a + ((of_char c :: nat) - 48)) 0 ds"

text \<open>The sign at the head of a text: its factor and the rest of the text.\<close>

fun read_sign :: "string \<Rightarrow> int \<times> string" where
  "read_sign [] = (1, [])"
| "read_sign (c # cs) =
     (if c = CHR ''-'' then (-1, cs) else if c = CHR ''+'' then (1, cs) else (1, c # cs))"

text \<open>The exponent part at the head of a text, 0 when there is none.\<close>

fun read_exponent :: "string \<Rightarrow> int" where
  "read_exponent [] = 0"
| "read_exponent (c # cs) =
     (if c = CHR ''e'' \<or> c = CHR ''E''
      then (case read_sign cs of
              (sg, ds) \<Rightarrow> sg * int (digitsValue (takeWhile isDigit ds)))
      else 0)"

definition scale10 :: "real \<Rightarrow> int \<Rightarrow> real" where
  "scale10 x e = (if e \<ge> 0 then x * 10 ^ nat e else x / 10 ^ nat (- e))"

definition parseFloat_decimal :: "string \<Rightarrow> jsnum" where
  "parseFloat_decimal str =
     (case read_sign (dropWhile isWhiteSpace str) of
        (sg, t) \<Rightarrow>
          if prefix ''Infinity'' t then (if sg < 0 then NegInf else PosInf)
          else
            let ip = takeWhile isDigit t;
                t1 = dropWhile isDigit t;
                hasDot = (t1 \<noteq> [] \<and> hd t1 = CHR ''.'');
                fp = (if hasDot then takeWhile isDigit (tl t1) else []);
                t2 = (if hasDot then dropWhile isDigit (tl t1) else t1)
            in if ip = [] \<and> fp = [] then NaN
               else Fin (scale10
                      (real_of_int sg *
                         (real (digitsValue ip) + real (digitsValue fp) / 10 ^ length fp))
                      (read_exponent t2)))"

subsection \<open>A concrete installation\<close>

text \<open>
  One pack on disk, used to run the definitions: \<open>greeting\<close> has two sounds, \<open>complete\<close>
  has one, the only \<open>error\<close> sound has no audio file, and the two \<open>annoyed\<close> entries name
  the same file. There is no \<open>peasant\<close> directory.
\<close>

definition peon_manifest :: PackManifest where
  "peon_manifest =
     \<lparr>name = ''peon'', display_name = ''Orc Peon'',
      categories =
        [''greeting'' \<mapsto>
           \<lparr>sounds = [\<lparr>entry_file = ''ready.wav'', entry_line = ''Ready to work?''\<rparr>,
                      \<lparr>entry_file = ''yes.wav'', entry_line = ''Yes?''\<rparr>]\<rparr>,
         ''complete'' \<mapsto>
           \<lparr>sounds = [\<lparr>entry_file = ''done.wav'', entry_line = ''Something need doing?''\<rparr>]\<rparr>,
         ''error'' \<mapsto>
           \<lparr>sounds = [\<lparr>entry_file = ''gone.wav'', entry_line = ''Me not that kind of orc!''\<rparr>]\<rparr>,
         ''annoyed'' \<mapsto>
           \<lparr>sounds = [\<lparr>entry_file = ''busy.wav'', entry_line = ''Me busy.''\<rparr>,
                      \<lparr>entry_file = ''busy.wav'', entry_line = ''Leave me alone!''\<rparr>]\<rparr>]\<rparr>"

definition example_env :: Env where
  "example_env =
     \<lparr>PACKS_DIR = ''/ext/packs'',
      IS_MACOS = True,
      readFileSync = (\<lambda>p. if p = ''/ext/packs/peon/manifest.json''
                           then Inr ''(peon manifest)'' else Inl ReadError),
      JSON_parse = (\<lambda>t. if t = ''(peon manifest)'' then Inr (Some peon_manifest)
                         else Inl SyntaxError),
      existsSync = (\<lambda>p. p \<in> set [''/ext/packs/peon/sounds/ready.wav'',
                                    ''/ext/packs/peon/sounds/yes.wav'',
                                    ''/ext/packs/peon/sounds/done.wav'',
                                    ''/ext/packs/peon/sounds/busy.wav'']),
      parseFloat = parseFloat_decimal\<rparr>"

section \<open>Properties\<close>

subsection \<open>The selection engine\<close>


lemma random_index_less:
  assumes "0 \<le> r" "r < 1" "0 < n"
  shows "0 \<le> random_index r n \<and> random_index r n < int n"
proof -
  have "r * real n < real n" using assms by simp
  then have "\<lfloor>r * real n\<rfloor> < int n" by (simp add: floor_less_iff)
  moreover have "0 \<le> \<lfloor>r * real n\<rfloor>" using assms by simp
  ultimately show ?thesis unfolding random_index_def by linarith
qed

lemma candidates_subset: "set (candidates snds lf) \<subseteq> set snds"
  by (auto simp: candidates_def)

lemma candidates_single: "candidates [x] lf = [x]"
  by (simp add: candidates_def)

lemma candidates_avoid:
  "length snds \<ge> 2 \<Longrightarrow> e \<in> set (candidates snds lf) \<Longrightarrow> lf \<noteq> Some (entry_file e)"
  by (auto simp: candidates_def)

text \<open>What \<open>pickSound\<close> computes once the category's sound list is found non-empty.\<close>

lemma pickSound_draw:
  assumes "loadManifest env (currentPack s) = Some manifest"
    and "map_option sounds (categories manifest (category_name category)) = Some snds"
    and "snds \<noteq> []"
  shows "pickSound env r category s =
     (let cands = candidates snds (lastPlayed s (category_name category));
          i = random_index r (length cands)
      in if 0 \<le> i \<and> i < int (length cands)
         then (Inr (Some (cands ! nat i)),
               s\<lparr>lastPlayed := (lastPlayed s)(category_name category \<mapsto> entry_file (cands ! nat i))\<rparr>)
         else (Inl TypeError, s))"
  using assms by (auto simp: pickSound_def Let_def split: option.splits)

lemma pickSound_Some_shape:
  assumes "pickSound env r category s = (Inr (Some e), s')"
  shows "\<exists>manifest snds.
           loadManifest env (currentPack s) = Some manifest \<and>
           map_option sounds (categories manifest (category_name category)) = Some snds \<and>
           snds \<noteq> [] \<and>
           e \<in> set (candidates snds (lastPlayed s (category_name category))) \<and>
           s' = s\<lparr>lastPlayed := (lastPlayed s)(category_name category \<mapsto> entry_file e)\<rparr>"
  using assms
  by (auto simp: pickSound_def Let_def split: option.splits if_splits)

lemma pickSound_None_state:
  "pickSound env r category s = (Inr None, s') \<Longrightarrow> s' = s"
  by (auto simp: pickSound_def Let_def split: option.splits if_splits)

lemma pickSound_error_state:
  "pickSound env r category s = (Inl e, s') \<Longrightarrow> s' = s"
  by (auto simp: pickSound_def Let_def split: option.splits if_splits)

text \<open>
  Claim C1. Whenever \<open>pickSound\<close> returns an entry \<open>e\<close>, the manifest was loaded, the
  category has a non-empty sound list, \<open>e\<close> is a member of that list, the only change to
  the state is that \<open>lastPlayed[category]\<close> is now \<open>e.file\<close>, and if the list has two or
  more entries then \<open>e.file\<close> is not the value \<open>lastPlayed[category]\<close> had before the call;
  if the list has exactly one entry, \<open>e\<close> is that entry. Moreover, on a one-entry list
  every draw in \<open>[0, 1)\<close> does return that entry.
\<close>

theorem pickSound_returns_member_no_repeat:
  "(pickSound env r category s = (Inr (Some e), s') \<longrightarrow>
      (\<exists>manifest snds.
          loadManifest env (currentPack s) = Some manifest \<and>
          map_option sounds (categories manifest (category_name category)) = Some snds \<and>
          snds \<noteq> [] \<and>
          e \<in> set snds \<and>
          lastPlayed s' (category_name category) = Some (entry_file e) \<and>
          s' = s\<lparr>lastPlayed := (lastPlayed s)(category_name category \<mapsto> entry_file e)\<rparr> \<and>
          (length snds \<ge> 2 \<longrightarrow> lastPlayed s (category_name category) \<noteq> Some (entry_file e)) \<and>
          (\<forall>x. snds = [x] \<longrightarrow> e = x)))
   \<and>
   (loadManifest env (currentPack s) = Some manifest' \<and>
    map_option sounds (categories manifest' (category_name category)) = Some [x'] \<and>
    0 \<le> r \<and> r < 1 \<longrightarrow>
      pickSound env r category s =
        (Inr (Some x'), s\<lparr>lastPlayed := (lastPlayed s)(category_name category \<mapsto> entry_file x')\<rparr>))"
proof (intro conjI impI)
  assume a: "pickSound env r category s = (Inr (Some e), s')"
  from pickSound_Some_shape [OF a] obtain manifest snds where
    m: "loadManifest env (currentPack s) = Some manifest"
    and c: "map_option sounds (categories manifest (category_name category)) = Some snds"
    and ne: "snds \<noteq> []"
    and mem: "e \<in> set (candidates snds (lastPlayed s (category_name category)))"
    and s': "s' = s\<lparr>lastPlayed := (lastPlayed s)(category_name category \<mapsto> entry_file e)\<rparr>"
    by blast
  have "e \<in> set snds" using mem candidates_subset by blast
  moreover have "lastPlayed s' (category_name category) = Some (entry_file e)"
    using s' by simp
  moreover have "length snds \<ge> 2 \<longrightarrow> lastPlayed s (category_name category) \<noteq> Some (entry_file e)"
    using candidates_avoid [OF _ mem] by blast
  moreover have "\<forall>x. snds = [x] \<longrightarrow> e = x"
    using mem by (auto simp: candidates_single)
  ultimately show "\<exists>manifest snds.
          loadManifest env (currentPack s) = Some manifest \<and>
          map_option sounds (categories manifest (category_name category)) = Some snds \<and>
          snds \<noteq> [] \<and>
          e \<in> set snds \<and>
          lastPlayed s' (category_name category) = Some (entry_file e) \<and>
          s' = s\<lparr>lastPlayed := (lastPlayed s)(category_name category \<mapsto> entry_file e)\<rparr> \<and>
          (length snds \<ge> 2 \<longrightarrow> lastPlayed s (category_name category) \<noteq> Some (entry_file e)) \<and>
          (\<forall>x. snds = [x] \<longrightarrow> e = x)"
    using m c ne s' by blast
next
  assume b: "loadManifest env (currentPack s) = Some manifest' \<and>
    map_option sounds (categories manifest' (category_name category)) = Some [x'] \<and>
    0 \<le> r \<and> r < 1"
  then have i: "random_index r (Suc 0) = 0"
    using random_index_less [of r "Suc 0"] by simp
  have "pickSound env r category s =
     (let cands = candidates [x'] (lastPlayed s (category_name category));
          i = random_index r (length cands)
      in if 0 \<le> i \<and> i < int (length cands)
         then (Inr (Some (cands ! nat i)),
               s\<lparr>lastPlayed := (lastPlayed s)(category_name category \<mapsto> entry_file (cands ! nat i))\<rparr>)
         else (Inl TypeError, s))"
    using b by (intro pickSound_draw) auto
  then show "pickSound env r category s =
        (Inr (Some x'), s\<lparr>lastPlayed := (lastPlayed s)(category_name category \<mapsto> entry_file x')\<rparr>)"
    using i by (simp add: candidates_single)
qed

lemma example_load: "loadManifest example_env ''peon'' = Some peon_manifest"
  by (simp add: loadManifest_def readManifest_def example_env_def)


theorem pickSound_returns_member_no_repeat_witness:
  "pickSound example_env (1/2) Greeting (initial_state\<lparr>lastPlayed := [''greeting'' \<mapsto> ''yes.wav'']\<rparr>)
     = (Inr (Some \<lparr>entry_file = ''ready.wav'', entry_line = ''Ready to work?''\<rparr>),
        initial_state\<lparr>lastPlayed := [''greeting'' \<mapsto> ''ready.wav'']\<rparr>)
   \<and> lastPlayed (initial_state\<lparr>lastPlayed := [''greeting'' \<mapsto> ''ready.wav'']\<rparr>) ''greeting''
       = Some ''ready.wav''
   \<and> loadManifest example_env (currentPack (initial_state\<lparr>lastPlayed := [''complete'' \<mapsto> ''done.wav'']\<rparr>))
       = Some peon_manifest
   \<and> map_option sounds (categories peon_manifest (category_name Complete))
       = Some [\<lparr>entry_file = ''done.wav'', entry_line = ''Something need doing?''\<rparr>]
   \<and> (0::real) \<le> 1/2 \<and> (1/2::real) < 1
   \<and> pickSound example_env (1/2) Complete (initial_state\<lparr>lastPlayed := [''complete'' \<mapsto> ''done.wav'']\<rparr>)
     = (Inr (Some \<lparr>entry_file = ''done.wav'', entry_line = ''Something need doing?''\<rparr>),
        initial_state\<lparr>lastPlayed := [''complete'' \<mapsto> ''done.wav'']\<rparr>)"
proof -
  let ?e = "\<lparr>entry_file = ''ready.wav'', entry_line = ''Ready to work?''\<rparr>"
  let ?d = "\<lparr>entry_file = ''done.wav'', entry_line = ''Something need doing?''\<rparr>"
  let ?s = "initial_state\<lparr>lastPlayed := [''greeting'' \<mapsto> ''yes.wav'']\<rparr>"
  let ?s' = "initial_state\<lparr>lastPlayed := [''greeting'' \<mapsto> ''ready.wav'']\<rparr>"
  let ?t = "initial_state\<lparr>lastPlayed := [''complete'' \<mapsto> ''done.wav'']\<rparr>"
  have h1: "pickSound example_env (1/2) Greeting ?s = (Inr (Some ?e), ?s')"
    by (simp add: pickSound_def example_load initial_state_def peon_manifest_def
        candidates_def random_index_def)
  have h2: "loadManifest example_env (currentPack ?t) = Some peon_manifest"
    by (simp add: example_load initial_state_def)
  have h3: "map_option sounds (categories peon_manifest (category_name Complete)) = Some [?d]"
    by (simp add: peon_manifest_def)
  have c1: "lastPlayed ?s' ''greeting'' = Some ''ready.wav''"
    using pickSound_returns_member_no_repeat [of example_env "1/2" Greeting ?s ?e ?s'] h1
    by auto
  have c2: "pickSound example_env (1/2) Complete ?t = (Inr (Some ?d), ?t)"
    using pickSound_returns_member_no_repeat [of example_env "1/2" Complete ?t _ _ peon_manifest ?d]
      h2 h3 by (simp add: initial_state_def)
  show ?thesis using h1 h2 h3 c1 c2 by simp
qed

subsection \<open>The burst detector\<close>

lemma filter_snoc_neq:
  assumes "P n"
  shows "filter P xs @ [n] \<noteq> xs"
proof (induction xs rule: rev_induct)
  case Nil
  show ?case by simp
next
  case (snoc y ys)
  show ?case
  proof
    assume eq: "filter P (ys @ [y]) @ [n] = ys @ [y]"
    then have "y = n" by simp
    with eq assms have "filter P ys @ [n] = ys" by simp
    with snoc show False by simp
  qed
qed

text \<open>
  Claim C2. A call of \<open>checkAnnoyed\<close> at time \<open>now\<close> keeps of \<open>promptTimestamps\<close> the entries
  \<open>t\<close> with \<open>now - t < 10000\<close>, so every entry older than 10000 ms is dropped, appends
  \<open>now\<close>, and returns whether the new length is at least 3. The sequence is changed by
  every call, whatever the result, and nothing else of the state is. Starting from an
  empty history, calls at 0, 1000 and 2000 make the third call return true (the second
  returns false), and calls at 0, 6000 and 13000 make the third call return false.
\<close>

theorem checkAnnoyed_window:
  "(checkAnnoyed now s = (b, s') \<longrightarrow>
      promptTimestamps s' = filter (\<lambda>t. now - t < 10000) (promptTimestamps s) @ [now] \<and>
      (\<forall>t. now - t > 10000 \<longrightarrow> t \<notin> set (butlast (promptTimestamps s'))) \<and>
      b = (length (promptTimestamps s') \<ge> 3) \<and>
      promptTimestamps s' \<noteq> promptTimestamps s \<and>
      s' = s\<lparr>promptTimestamps := promptTimestamps s'\<rparr>)
   \<and> (promptTimestamps s0 = [] \<longrightarrow>
        fst (checkAnnoyed 2000 (snd (checkAnnoyed 1000 (snd (checkAnnoyed 0 s0))))) = True \<and>
        fst (checkAnnoyed 1000 (snd (checkAnnoyed 0 s0))) = False \<and>
        fst (checkAnnoyed 13000 (snd (checkAnnoyed 6000 (snd (checkAnnoyed 0 s0))))) = False)"
proof (intro conjI impI)
  assume a: "checkAnnoyed now s = (b, s')"
  let ?ts = "filter (\<lambda>t. now - t < 10000) (promptTimestamps s) @ [now]"
  from a have b: "b = (length ?ts \<ge> 3)" and s': "s' = s\<lparr>promptTimestamps := ?ts\<rparr>"
    by (auto simp: checkAnnoyed_def Let_def ANNOYED_WINDOW_MS_def ANNOYED_THRESHOLD_def)
  show "promptTimestamps s' = ?ts" using s' by simp
  show "\<forall>t. now - t > 10000 \<longrightarrow> t \<notin> set (butlast (promptTimestamps s'))"
    using s' by auto
  show "b = (length (promptTimestamps s') \<ge> 3)" using b s' by simp
  show "promptTimestamps s' \<noteq> promptTimestamps s"
    using s' filter_snoc_neq [of "\<lambda>t. now - t < 10000" now "promptTimestamps s"] by simp
  show "s' = s\<lparr>promptTimestamps := promptTimestamps s'\<rparr>" using s' by simp
next
  assume "promptTimestamps s0 = []"
  then show "fst (checkAnnoyed 2000 (snd (checkAnnoyed 1000 (snd (checkAnnoyed 0 s0))))) = True"
    by (simp add: checkAnnoyed_def Let_def ANNOYED_WINDOW_MS_def ANNOYED_THRESHOLD_def)
next
  assume "promptTimestamps s0 = []"
  then show "fst (checkAnnoyed 1000 (snd (checkAnnoyed 0 s0))) = False"
    by (simp add: checkAnnoyed_def Let_def ANNOYED_WINDOW_MS_def ANNOYED_THRESHOLD_def)
next
  assume "promptTimestamps s0 = []"
  then show "fst (checkAnnoyed 13000 (snd (checkAnnoyed 6000 (snd (checkAnnoyed 0 s0))))) = False"
    by (simp add: checkAnnoyed_def Let_def ANNOYED_WINDOW_MS_def ANNOYED_THRESHOLD_def)
qed

theorem checkAnnoyed_window_witness:
  "checkAnnoyed 13000 (initial_state\<lparr>promptTimestamps := [0, 6000]\<rparr>)
     = (False, initial_state\<lparr>promptTimestamps := [6000, 13000]\<rparr>)
   \<and> promptTimestamps (initial_state\<lparr>promptTimestamps := [6000, 13000]\<rparr>)
       \<noteq> promptTimestamps (initial_state\<lparr>promptTimestamps := [0, 6000]\<rparr>)
   \<and> (13000 - 0 > (10000::int)) \<and> (0::int) \<notin> set (butlast [6000, 13000])
   \<and> promptTimestamps initial_state = []
   \<and> fst (checkAnnoyed 2000 (snd (checkAnnoyed 1000 (snd (checkAnnoyed 0 initial_state)))))"
proof -
  have h: "checkAnnoyed 13000 (initial_state\<lparr>promptTimestamps := [0, 6000]\<rparr>)
     = (False, initial_state\<lparr>promptTimestamps := [6000, 13000]\<rparr>)"
    by (simp add: checkAnnoyed_def Let_def ANNOYED_WINDOW_MS_def ANNOYED_THRESHOLD_def)
  have e: "promptTimestamps initial_state = []" by (simp add: initial_state_def)
  show ?thesis
    using h e checkAnnoyed_window [of 13000 "initial_state\<lparr>promptTimestamps := [0, 6000]\<rparr>"
        False "initial_state\<lparr>promptTimestamps := [6000, 13000]\<rparr>" initial_state]
    by simp
qed



subsection \<open>Pack switch and the frame of the handlers\<close>

text \<open>What each operation leaves alone, from the helpers up to the handlers.\<close>

lemma pickSound_keeps:
  assumes "pickSound env r category s = (res, s')"
  shows "currentPack s' = currentPack s \<and> dom (lastPlayed s) \<subseteq> dom (lastPlayed s') \<and>
         volume s' = volume s \<and> muted s' = muted s \<and> promptTimestamps s' = promptTimestamps s"
  using assms
  by (auto simp: pickSound_def Let_def split: option.splits if_splits)

lemma playSound_keeps:
  assumes "playSound env r category s = (res, s', fx)"
  shows "currentPack s' = currentPack s \<and> dom (lastPlayed s) \<subseteq> dom (lastPlayed s') \<and>
         volume s' = volume s \<and> muted s' = muted s \<and> promptTimestamps s' = promptTimestamps s"
proof (cases "muted s \<or> \<not> IS_MACOS env")
  case True
  with assms show ?thesis by (simp add: playSound_def)
next
  case False
  obtain pr ps where p: "pickSound env r category s = (pr, ps)" by fastforce
  from assms False p have "s' = ps"
    by (auto simp: playSound_def Let_def split: sum.splits option.splits if_splits)
  with pickSound_keeps [OF p] show ?thesis by simp
qed

lemma playSound_effects:
  assumes "playSound env r category s = (res, s', fx)"
  shows "\<forall>m sv. Notify m sv \<notin> set fx"
  using assms
  by (auto simp: playSound_def Let_def split: sum.splits option.splits if_splits prod.splits)

lemma show_line_state:
  "show_line emoji ms (res, s', fx) = (res', s'', fx') \<Longrightarrow> s'' = s'"
  by (auto simp: show_line_def split: sum.splits option.splits if_splits)

lemma checkAnnoyed_keeps:
  "checkAnnoyed now s = (b, s') \<Longrightarrow>
     currentPack s' = currentPack s \<and> lastPlayed s' = lastPlayed s"
  by (auto simp: checkAnnoyed_def Let_def)

lemma shown_keeps:
  assumes "show_line emoji ms (playSound env r category s) = (res, s', fx)"
  shows "currentPack s' = currentPack s \<and> dom (lastPlayed s) \<subseteq> dom (lastPlayed s') \<and>
         volume s' = volume s"
proof -
  obtain pr ps pf where p: "playSound env r category s = (pr, ps, pf)"
    by (metis prod_cases3)
  with assms have "s' = ps" using show_line_state by metis
  with playSound_keeps [OF p] show ?thesis by simp
qed

lemma volume_accept_keeps:
  assumes "volume_accept env r v s = (res, s', fx)"
  shows "currentPack s' = currentPack s \<and> dom (lastPlayed s) \<subseteq> dom (lastPlayed s') \<and>
         volume s' = v"
proof -
  obtain pr ps pf where p: "playSound env r Greeting (s\<lparr>volume := v\<rparr>) = (pr, ps, pf)"
    by (metis prod_cases3)
  with assms have "s' = ps"
    by (auto simp: volume_accept_def Let_def split: sum.splits)
  with playSound_keeps [OF p] show ?thesis by simp
qed

lemma syncPackToModel_same:
  "currentPack (syncPackToModel m s) = currentPack s \<Longrightarrow> syncPackToModel m s = s"
  by (auto simp: syncPackToModel_def Let_def split: if_splits)

lemma handle_keeps:
  assumes h: "handle env r ev s = (res, s', fx)" and c: "currentPack s' = currentPack s"
  shows "dom (lastPlayed s) \<subseteq> dom (lastPlayed s')"
proof (cases ev)
  case (ModelSelect m)
  with h c show ?thesis
    by (auto simp: on_model_select_def Let_def split: if_splits)
next
  case (SessionStart m)
  with h have p: "show_line (packEmoji (syncPackToModel m s)) 3000
      (playSound env r Greeting (syncPackToModel m s)) = (res, s', fx)"
    by (simp add: on_session_start_def Let_def)
  from shown_keeps [OF p] c have "syncPackToModel m s = s"
    using syncPackToModel_same by simp
  with shown_keeps [OF p] show ?thesis by simp
next
  case (AgentStart m now)
  obtain b s2 where ca: "checkAnnoyed now (syncPackToModel m s) = (b, s2)" by fastforce
  from h AgentStart ca have
    "show_line Huff 3000 (playSound env r Annoyed s2) = (res, s', fx) \<or>
     show_line Swords 3000 (playSound env r Acknowledge s2) = (res, s', fx)"
    by (auto simp: on_agent_start_def Let_def split: if_splits)
  then have k: "currentPack s' = currentPack s2 \<and> dom (lastPlayed s2) \<subseteq> dom (lastPlayed s')"
    using shown_keeps by blast
  from checkAnnoyed_keeps [OF ca] have
    k2: "currentPack s2 = currentPack (syncPackToModel m s)"
        "lastPlayed s2 = lastPlayed (syncPackToModel m s)" by simp_all
  from k k2 c have "syncPackToModel m s = s" using syncPackToModel_same by simp
  with k k2 show ?thesis by simp
next
  case AgentEnd
  with h have p: "show_line CheckMark 4000 (playSound env r Complete s) = (res, s', fx)"
    by (simp add: on_agent_end_def)
  from shown_keeps [OF p] show ?thesis by simp
next
  case (ToolResult isError)
  show ?thesis
  proof (cases isError)
    case True
    with h ToolResult have p: "show_line Skull 3000 (playSound env r Error s) = (res, s', fx)"
      by (simp add: on_tool_result_def)
    from shown_keeps [OF p] show ?thesis by simp
  next
    case False
    with h ToolResult show ?thesis by (simp add: on_tool_result_def)
  qed
next
  case CmdMute
  with h show ?thesis by (auto simp: wc3_mute_def Let_def)
next
  case (CmdVolume args input)
  with h have w: "wc3_volume env r args input s = (res, s', fx)" by simp
  then have "s' = s \<or> (\<exists>v res2 fx2. volume_accept env r v s = (res2, s', fx2))"
    by (auto simp: wc3_volume_def Let_def split: if_splits option.splits prod.splits)
  then show ?thesis using volume_accept_keeps by blast
next
  case ShortcutMute
  with h show ?thesis by (auto simp: wc3_mute_def Let_def)
qed

text \<open>
  Claim C3. A pack switch (\<open>syncPackToModel\<close>, or the \<open>model_select\<close> handler) whose new pack
  is the current pack changes nothing, and so is idempotent; one whose new pack differs
  sets \<open>currentPack\<close> to it and empties \<open>lastPlayed\<close>, changing nothing else. No other
  operation clears \<open>lastPlayed\<close>: whatever event is handled, if \<open>currentPack\<close> is the same
  afterwards then every key of \<open>lastPlayed\<close> is still there, and \<open>pickSound\<close>, \<open>playSound\<close>
  and \<open>checkAnnoyed\<close> never remove a key.
\<close>

theorem pack_switch_resets_lastPlayed:
  "(packForModel m = currentPack s \<longrightarrow>
      syncPackToModel m s = s \<and> on_model_select env m s = (None, s, []))
   \<and> (packForModel m \<noteq> currentPack s \<longrightarrow>
        syncPackToModel m s = s\<lparr>currentPack := packForModel m, lastPlayed := Map.empty\<rparr> \<and>
        fst (snd (on_model_select env m s)) =
          s\<lparr>currentPack := packForModel m, lastPlayed := Map.empty\<rparr>)
   \<and> syncPackToModel m (syncPackToModel m s) = syncPackToModel m s
   \<and> (handle env r ev s = (res, s', fx) \<and> currentPack s' = currentPack s \<longrightarrow>
        dom (lastPlayed s) \<subseteq> dom (lastPlayed s'))
   \<and> (pickSound env r category s = (pres, ps) \<longrightarrow> dom (lastPlayed s) \<subseteq> dom (lastPlayed ps))
   \<and> (playSound env r category s = (qres, qs, qfx) \<longrightarrow> dom (lastPlayed s) \<subseteq> dom (lastPlayed qs))
   \<and> lastPlayed (snd (checkAnnoyed now s)) = lastPlayed s"
proof (intro conjI impI)
  assume "packForModel m = currentPack s"
  then show "syncPackToModel m s = s" by (simp add: syncPackToModel_def)
next
  assume "packForModel m = currentPack s"
  then show "on_model_select env m s = (None, s, [])" by (simp add: on_model_select_def)
next
  assume "packForModel m \<noteq> currentPack s"
  then show "syncPackToModel m s = s\<lparr>currentPack := packForModel m, lastPlayed := Map.empty\<rparr>"
    by (simp add: syncPackToModel_def)
next
  assume "packForModel m \<noteq> currentPack s"
  then show "fst (snd (on_model_select env m s)) =
          s\<lparr>currentPack := packForModel m, lastPlayed := Map.empty\<rparr>"
    by (simp add: on_model_select_def Let_def)
next
  show "syncPackToModel m (syncPackToModel m s) = syncPackToModel m s"
    by (simp add: syncPackToModel_def Let_def)
next
  assume "handle env r ev s = (res, s', fx) \<and> currentPack s' = currentPack s"
  then show "dom (lastPlayed s) \<subseteq> dom (lastPlayed s')" using handle_keeps by blast
next
  assume "pickSound env r category s = (pres, ps)"
  then show "dom (lastPlayed s) \<subseteq> dom (lastPlayed ps)" using pickSound_keeps by blast
next
  assume "playSound env r category s = (qres, qs, qfx)"
  then show "dom (lastPlayed s) \<subseteq> dom (lastPlayed qs)" using playSound_keeps by blast
next
  show "lastPlayed (snd (checkAnnoyed now s)) = lastPlayed s"
    by (simp add: checkAnnoyed_def Let_def)
qed


lemma codex_example:
  "packForModel (Some \<lparr>model_provider = None, model_id = Some ''gpt-5-codex'', model_name = None\<rparr>)
     = ''peasant''"
  by (simp add: packForModel_def toLowerCase_def toLowerChar_def)

theorem pack_switch_resets_lastPlayed_witness:
  "packForModel None = currentPack (initial_state\<lparr>lastPlayed := [''greeting'' \<mapsto> ''yes.wav'']\<rparr>)
   \<and> syncPackToModel None (initial_state\<lparr>lastPlayed := [''greeting'' \<mapsto> ''yes.wav'']\<rparr>)
       = initial_state\<lparr>lastPlayed := [''greeting'' \<mapsto> ''yes.wav'']\<rparr>
   \<and> packForModel (Some \<lparr>model_provider = None, model_id = Some ''gpt-5-codex'', model_name = None\<rparr>)
       \<noteq> currentPack (initial_state\<lparr>lastPlayed := [''greeting'' \<mapsto> ''yes.wav'']\<rparr>)
   \<and> syncPackToModel (Some \<lparr>model_provider = None, model_id = Some ''gpt-5-codex'', model_name = None\<rparr>)
         (initial_state\<lparr>lastPlayed := [''greeting'' \<mapsto> ''yes.wav'']\<rparr>)
       = initial_state\<lparr>currentPack := ''peasant'', lastPlayed := Map.empty\<rparr>
   \<and> handle example_env 0 AgentEnd (initial_state\<lparr>lastPlayed := [''greeting'' \<mapsto> ''yes.wav'']\<rparr>)
       = (None,
          initial_state\<lparr>lastPlayed := [''greeting'' \<mapsto> ''yes.wav'', ''complete'' \<mapsto> ''done.wav'']\<rparr>,
          [ExecAfplay (Fin (1/2)) ''/ext/packs/peon/sounds/done.wav'',
           SetStatus CheckMark ''Something need doing?'', ClearStatusAfter 4000])
   \<and> dom [''greeting'' \<mapsto> ''yes.wav'']
       \<subseteq> dom (lastPlayed (initial_state\<lparr>lastPlayed :=
                  [''greeting'' \<mapsto> ''yes.wav'', ''complete'' \<mapsto> ''done.wav'']\<rparr>))"
proof -
  let ?s = "initial_state\<lparr>lastPlayed := [''greeting'' \<mapsto> ''yes.wav'']\<rparr>"
  let ?s' = "initial_state\<lparr>lastPlayed := [''greeting'' \<mapsto> ''yes.wav'', ''complete'' \<mapsto> ''done.wav'']\<rparr>"
  let ?m = "Some \<lparr>model_provider = None, model_id = Some ''gpt-5-codex'', model_name = None\<rparr>"
  let ?fx = "[ExecAfplay (Fin (1/2)) ''/ext/packs/peon/sounds/done.wav'',
           SetStatus CheckMark ''Something need doing?'', ClearStatusAfter 4000]"
  have a: "packForModel None = currentPack ?s"
    by (simp add: packForModel_def initial_state_def)
  have b: "packForModel ?m \<noteq> currentPack ?s"
    by (simp add: codex_example initial_state_def)
  have p: "pickSound example_env 0 Complete ?s =
      (Inr (Some \<lparr>entry_file = ''done.wav'', entry_line = ''Something need doing?''\<rparr>), ?s')"
    by (simp add: pickSound_def example_load peon_manifest_def candidates_def random_index_def
        initial_state_def)
  have q: "playSound example_env 0 Complete ?s =
      (Inr (Some ''Something need doing?''), ?s',
       [ExecAfplay (Fin (1/2)) ''/ext/packs/peon/sounds/done.wav''])"
    by (simp add: playSound_def p) (simp add: initial_state_def example_env_def)
  have h: "handle example_env 0 AgentEnd ?s = (None, ?s', ?fx)"
    by (simp add: on_agent_end_def q show_line_def)
  have c: "currentPack ?s' = currentPack ?s" by simp
  have t1: "syncPackToModel None ?s = ?s"
    using pack_switch_resets_lastPlayed [of None ?s] a by simp
  have t2: "syncPackToModel ?m ?s = initial_state\<lparr>currentPack := ''peasant'', lastPlayed := Map.empty\<rparr>"
    using pack_switch_resets_lastPlayed [of ?m ?s] b by (simp add: codex_example)
  have t3: "dom (lastPlayed ?s) \<subseteq> dom (lastPlayed ?s')"
    using pack_switch_resets_lastPlayed [of _ ?s example_env 0 AgentEnd None ?s' ?fx] h c
    by blast
  show ?thesis using a b t1 t2 t3 h by simp
qed

subsection \<open>The mute gate\<close>

text \<open>
  Claim C4. When \<open>muted\<close> is true, \<open>playSound\<close> returns \<open>null\<close> for every category, starts
  no playback and returns the state it was given: \<open>lastPlayed\<close>, \<open>promptTimestamps\<close> and
  every other variable are as before the call.
\<close>

theorem playSound_muted_noop:
  "muted s \<Longrightarrow> playSound env r category s = (Inr None, s, [])"
  by (simp add: playSound_def)

theorem playSound_muted_noop_witness:
  "muted (initial_state\<lparr>muted := True\<rparr>) \<and>
   playSound example_env 0 Greeting (initial_state\<lparr>muted := True\<rparr>)
     = (Inr None, initial_state\<lparr>muted := True\<rparr>, []) \<and>
   playSound example_env 0 Greeting initial_state
     \<noteq> (Inr None, initial_state, [])"
proof -
  have m: "muted (initial_state\<lparr>muted := True\<rparr>)" by simp
  have p: "pickSound example_env 0 Greeting initial_state =
      (Inr (Some \<lparr>entry_file = ''ready.wav'', entry_line = ''Ready to work?''\<rparr>),
       initial_state\<lparr>lastPlayed := [''greeting'' \<mapsto> ''ready.wav'']\<rparr>)"
    by (simp add: pickSound_def example_load peon_manifest_def candidates_def random_index_def
        initial_state_def)
  have n: "playSound example_env 0 Greeting initial_state \<noteq> (Inr None, initial_state, [])"
    by (simp add: playSound_def p) (simp add: initial_state_def example_env_def)
  show ?thesis using m n playSound_muted_noop [OF m, of example_env 0 Greeting] by simp
qed

subsection \<open>Manifest access\<close>

text \<open>
  Claim C8. \<open>loadManifest\<close> never raises: when reading the file throws, or parsing its
  text throws, the result is \<open>null\<close>; and when \<open>loadManifest\<close> gives \<open>null\<close> for the current
  pack, \<open>pickSound\<close> returns \<open>null\<close> without an exception and with the state unchanged.
\<close>

theorem loadManifest_failure_is_null:
  "(readFileSync env (path_join [PACKS_DIR env, packName, ''manifest.json'']) = Inl e
      \<longrightarrow> loadManifest env packName = None)
   \<and> (readFileSync env (path_join [PACKS_DIR env, packName, ''manifest.json'']) = Inr txt \<and>
       JSON_parse env txt = Inl e \<longrightarrow> loadManifest env packName = None)
   \<and> (readManifest env packName = Inl e \<longrightarrow> loadManifest env packName = None)
   \<and> (loadManifest env (currentPack s) = None \<longrightarrow> pickSound env r category s = (Inr None, s))"
  by (simp add: loadManifest_def readManifest_def pickSound_def)

theorem loadManifest_failure_is_null_witness:
  "readFileSync example_env (path_join [PACKS_DIR example_env, ''peasant'', ''manifest.json''])
     = Inl ReadError
   \<and> loadManifest example_env ''peasant'' = None
   \<and> readFileSync (example_env\<lparr>JSON_parse := \<lambda>t. Inl SyntaxError\<rparr>)
         (path_join [PACKS_DIR (example_env\<lparr>JSON_parse := \<lambda>t. Inl SyntaxError\<rparr>),
                     ''peon'', ''manifest.json''])
       = Inr ''(peon manifest)''
   \<and> JSON_parse (example_env\<lparr>JSON_parse := \<lambda>t. Inl SyntaxError\<rparr>) ''(peon manifest)''
       = Inl SyntaxError
   \<and> loadManifest (example_env\<lparr>JSON_parse := \<lambda>t. Inl SyntaxError\<rparr>) ''peon'' = None
   \<and> pickSound example_env 0 Greeting (initial_state\<lparr>currentPack := ''peasant''\<rparr>)
       = (Inr None, initial_state\<lparr>currentPack := ''peasant''\<rparr>)"
proof -
  let ?env = "example_env\<lparr>JSON_parse := \<lambda>t. Inl SyntaxError\<rparr>"
  let ?s = "initial_state\<lparr>currentPack := ''peasant''\<rparr>"
  have a: "readFileSync example_env
      (path_join [PACKS_DIR example_env, ''peasant'', ''manifest.json'']) = Inl ReadError"
    by (simp add: example_env_def)
  have b: "readFileSync ?env (path_join [PACKS_DIR ?env, ''peon'', ''manifest.json''])
      = Inr ''(peon manifest)''"
    by (simp add: example_env_def)
  have c: "JSON_parse ?env ''(peon manifest)'' = Inl SyntaxError" by simp
  have t1: "loadManifest example_env ''peasant'' = None"
    using loadManifest_failure_is_null [of example_env "''peasant''" ReadError] a by blast
  have t2: "loadManifest ?env ''peon'' = None"
    using loadManifest_failure_is_null
      [of ?env "''peon''" SyntaxError "''(peon manifest)''"] b c by blast
  have d: "loadManifest example_env (currentPack ?s) = None" using t1 by simp
  have t3: "pickSound example_env 0 Greeting ?s = (Inr None, ?s)"
    using loadManifest_failure_is_null [of example_env _ _ _ ?s 0 Greeting] d by blast
  show ?thesis using a b c t1 t2 t3 by simp
qed



subsection \<open>The model resolver\<close>

lemma str_includes_sublist: "str_includes s p = sublist p s"
  by (induction s) (simp_all add: sublist_Cons_right)

text \<open>
  Claim C5. \<open>packForModel\<close> is a total function of its argument alone. An absent model
  gives the default pack \<open>peon\<close>. With \<open>id\<close> and \<open>provider\<close> lower-cased (an absent field
  counting as the empty string): if either contains \<open>codex\<close> the result is \<open>peasant\<close>;
  otherwise, if either contains \<open>claude\<close> or \<open>anthropic\<close>, the result is \<open>peon\<close>; and in
  every other case it is \<open>peon\<close> as well. The four examples of the specification follow.
\<close>

theorem packForModel_rules:
  "packForModel None = ''peon''
   \<and> (let i = toLowerCase (case model_id m of None \<Rightarrow> '''' | Some x \<Rightarrow> x);
           p = toLowerCase (case model_provider m of None \<Rightarrow> '''' | Some x \<Rightarrow> x)
       in (sublist ''codex'' i \<or> sublist ''codex'' p \<longrightarrow> packForModel (Some m) = ''peasant'')
        \<and> (\<not> (sublist ''codex'' i \<or> sublist ''codex'' p) \<and>
            (sublist ''claude'' i \<or> sublist ''claude'' p \<or>
             sublist ''anthropic'' i \<or> sublist ''anthropic'' p)
              \<longrightarrow> packForModel (Some m) = ''peon'')
        \<and> (\<not> (sublist ''codex'' i \<or> sublist ''codex'' p) \<longrightarrow> packForModel (Some m) = ''peon''))
   \<and> packForModel (Some \<lparr>model_provider = None, model_id = Some ''claude-3-opus'', model_name = None\<rparr>)
       = ''peon''
   \<and> packForModel (Some \<lparr>model_provider = None, model_id = Some ''gpt-5-codex'', model_name = None\<rparr>)
       = ''peasant''
   \<and> packForModel (Some \<lparr>model_provider = Some ''anthropic'', model_id = None, model_name = None\<rparr>)
       = ''peon''"
proof (intro conjI)
  show "packForModel None = ''peon''" by (simp add: packForModel_def)
  show "let i = toLowerCase (case model_id m of None \<Rightarrow> '''' | Some x \<Rightarrow> x);
           p = toLowerCase (case model_provider m of None \<Rightarrow> '''' | Some x \<Rightarrow> x)
       in (sublist ''codex'' i \<or> sublist ''codex'' p \<longrightarrow> packForModel (Some m) = ''peasant'')
        \<and> (\<not> (sublist ''codex'' i \<or> sublist ''codex'' p) \<and>
            (sublist ''claude'' i \<or> sublist ''claude'' p \<or>
             sublist ''anthropic'' i \<or> sublist ''anthropic'' p)
              \<longrightarrow> packForModel (Some m) = ''peon'')
        \<and> (\<not> (sublist ''codex'' i \<or> sublist ''codex'' p) \<longrightarrow> packForModel (Some m) = ''peon'')"
    by (simp add: packForModel_def Let_def str_includes_sublist)
  show "packForModel (Some \<lparr>model_provider = None, model_id = Some ''claude-3-opus'', model_name = None\<rparr>)
       = ''peon''"
    by (simp add: packForModel_def toLowerCase_def toLowerChar_def)
  show "packForModel (Some \<lparr>model_provider = None, model_id = Some ''gpt-5-codex'', model_name = None\<rparr>)
       = ''peasant''"
    by (simp add: packForModel_def toLowerCase_def toLowerChar_def)
  show "packForModel (Some \<lparr>model_provider = Some ''anthropic'', model_id = None, model_name = None\<rparr>)
       = ''peon''"
    by (simp add: packForModel_def toLowerCase_def toLowerChar_def)
qed

theorem packForModel_rules_witness:
  "sublist ''codex'' (toLowerCase ''OpenAI-Codex'')
   \<and> packForModel (Some \<lparr>model_provider = Some ''OpenAI-Codex'', model_id = Some ''claude'',
                         model_name = None\<rparr>) = ''peasant''
   \<and> \<not> (sublist ''codex'' (toLowerCase ''Claude-3-Opus'') \<or> sublist ''codex'' (toLowerCase ''''))
   \<and> sublist ''claude'' (toLowerCase ''Claude-3-Opus'')
   \<and> packForModel (Some \<lparr>model_provider = None, model_id = Some ''Claude-3-Opus'',
                         model_name = None\<rparr>) = ''peon''"
proof -
  let ?m1 = "\<lparr>model_provider = Some ''OpenAI-Codex'', model_id = Some ''claude'', model_name = None\<rparr>"
  let ?m2 = "\<lparr>model_provider = None, model_id = Some ''Claude-3-Opus'', model_name = None\<rparr>"
  have l1: "toLowerCase ''OpenAI-Codex'' = ''openai-codex''"
    by code_simp
  have l2: "toLowerCase ''Claude-3-Opus'' = ''claude-3-opus''"
    by code_simp
  have l3: "toLowerCase '''' = ''''" "toLowerCase ''claude'' = ''claude''"
    by (simp_all add: toLowerCase_def toLowerChar_def)
  have a: "sublist ''codex'' ''openai-codex''"
    by (simp add: str_includes_sublist [symmetric])
  have b: "\<not> sublist ''codex'' ''claude-3-opus''" "\<not> sublist ''codex'' ''''"
    by (simp_all add: str_includes_sublist [symmetric])
  have c: "sublist ''claude'' ''claude-3-opus''"
    by (simp add: str_includes_sublist [symmetric])
  have t1: "packForModel (Some ?m1) = ''peasant''"
    using packForModel_rules [of ?m1] a by (simp add: Let_def l1 l3)
  have t2: "packForModel (Some ?m2) = ''peon''"
    using packForModel_rules [of ?m2] b c by (simp add: Let_def l2 l3)
  show ?thesis using a b c t1 t2 by (simp add: l1 l2 l3)
qed

subsection \<open>Candidates of the draw\<close>

lemma filter_eq_le_one:
  "distinct (map f xs) \<Longrightarrow> length (filter (\<lambda>x. f x = a) xs) \<le> 1"
proof (induction xs)
  case Nil
  show ?case by simp
next
  case (Cons x xs)
  show ?case
  proof (cases "f x = a")
    case True
    from Cons.prems have "f x \<notin> f ` set xs" by simp
    with True have "\<forall>y\<in>set xs. f y \<noteq> a" by blast
    then have "filter (\<lambda>x. f x = a) xs = []" by (simp add: filter_empty_conv)
    with True show ?thesis by simp
  next
    case False
    with Cons show ?thesis by simp
  qed
qed

lemma candidates_length:
  assumes "distinct (map entry_file snds)"
  shows "length snds - 1 \<le> length (candidates snds lf)"
proof (cases lf)
  case None
  then show ?thesis by (simp add: candidates_def)
next
  case (Some a)
  have "length (filter (\<lambda>x. entry_file x = a) snds)
        + length (filter (\<lambda>x. \<not> entry_file x = a) snds) = length snds"
    by (rule sum_length_filter_compl)
  moreover have "length (filter (\<lambda>x. entry_file x = a) snds) \<le> 1"
    using assms by (rule filter_eq_le_one)
  ultimately have "length snds - 1 \<le> length (filter (\<lambda>x. entry_file x \<noteq> a) snds)"
    by simp
  with Some show ?thesis by (simp add: candidates_def)
qed

lemma candidates_nonempty:
  assumes "distinct (map entry_file snds)" "snds \<noteq> []"
  shows "candidates snds lf \<noteq> []"
proof (cases "length snds > 1")
  case True
  with candidates_length [OF assms(1), of lf] have "0 < length (candidates snds lf)" by arith
  then show ?thesis by blast
next
  case False
  with assms(2) show ?thesis by (simp add: candidates_def)
qed

text \<open>
  Claim C9. For a sound list with at least two entries and a last-played file that is
  the file of none of them, the filter removes nothing: the candidates are the whole
  list, and \<open>pickSound\<close> draws from the whole list.
\<close>

theorem candidates_stale_lastPlayed:
  "length snds \<ge> 2 \<and> f \<notin> entry_file ` set snds \<longrightarrow>
     candidates snds (Some f) = snds
     \<and> (loadManifest env (currentPack s) = Some manifest \<and>
        map_option sounds (categories manifest (category_name category)) = Some snds \<and>
        lastPlayed s (category_name category) = Some f \<and> 0 \<le> r \<and> r < 1 \<longrightarrow>
          pickSound env r category s =
            (Inr (Some (snds ! nat (random_index r (length snds)))),
             s\<lparr>lastPlayed := (lastPlayed s)
                  (category_name category \<mapsto> entry_file (snds ! nat (random_index r (length snds))))\<rparr>))"
proof (intro impI conjI)
  assume a: "length snds \<ge> 2 \<and> f \<notin> entry_file ` set snds"
  then have "\<forall>x\<in>set snds. Some (entry_file x) \<noteq> Some f" by auto
  then show c: "candidates snds (Some f) = snds" by (simp add: candidates_def)
  assume b: "loadManifest env (currentPack s) = Some manifest \<and>
        map_option sounds (categories manifest (category_name category)) = Some snds \<and>
        lastPlayed s (category_name category) = Some f \<and> 0 \<le> r \<and> r < 1"
  from a have ne: "snds \<noteq> []" by auto
  from a b have i: "0 \<le> random_index r (length snds) \<and>
      random_index r (length snds) < int (length snds)"
    by (intro random_index_less) auto
  show "pickSound env r category s =
            (Inr (Some (snds ! nat (random_index r (length snds)))),
             s\<lparr>lastPlayed := (lastPlayed s)
                  (category_name category \<mapsto> entry_file (snds ! nat (random_index r (length snds))))\<rparr>)"
    using pickSound_draw [of env s manifest category snds r] b ne c i
    by (simp add: Let_def)
qed

theorem candidates_stale_lastPlayed_witness:
  "length (sounds (the (categories peon_manifest ''greeting''))) \<ge> 2
   \<and> ''old.wav'' \<notin> entry_file ` set (sounds (the (categories peon_manifest ''greeting'')))
   \<and> candidates (sounds (the (categories peon_manifest ''greeting''))) (Some ''old.wav'')
       = [\<lparr>entry_file = ''ready.wav'', entry_line = ''Ready to work?''\<rparr>,
          \<lparr>entry_file = ''yes.wav'', entry_line = ''Yes?''\<rparr>]
   \<and> pickSound example_env (1/2) Greeting
         (initial_state\<lparr>lastPlayed := [''greeting'' \<mapsto> ''old.wav'']\<rparr>)
       = (Inr (Some \<lparr>entry_file = ''yes.wav'', entry_line = ''Yes?''\<rparr>),
          initial_state\<lparr>lastPlayed := [''greeting'' \<mapsto> ''yes.wav'']\<rparr>)"
proof -
  let ?snds = "[\<lparr>entry_file = ''ready.wav'', entry_line = ''Ready to work?''\<rparr>,
                \<lparr>entry_file = ''yes.wav'', entry_line = ''Yes?''\<rparr>]"
  let ?s = "initial_state\<lparr>lastPlayed := [''greeting'' \<mapsto> ''old.wav'']\<rparr>"
  have g: "sounds (the (categories peon_manifest ''greeting'')) = ?snds"
    by (simp add: peon_manifest_def)
  have a: "length ?snds \<ge> 2 \<and> ''old.wav'' \<notin> entry_file ` set ?snds" by simp
  have b: "loadManifest example_env (currentPack ?s) = Some peon_manifest \<and>
        map_option sounds (categories peon_manifest (category_name Greeting)) = Some ?snds \<and>
        lastPlayed ?s (category_name Greeting) = Some ''old.wav'' \<and> (0::real) \<le> 1/2 \<and> (1/2::real) < 1"
    by (simp add: example_load initial_state_def peon_manifest_def)
  have i: "random_index (1/2) (Suc (Suc 0)) = 1" by (simp add: random_index_def)
  from candidates_stale_lastPlayed
         [of ?snds "''old.wav''" example_env ?s peon_manifest Greeting "1/2"] a b
  have "candidates ?snds (Some ''old.wav'') = ?snds"
    and "pickSound example_env (1/2) Greeting ?s =
            (Inr (Some (?snds ! nat (random_index (1/2) (length ?snds)))),
             ?s\<lparr>lastPlayed := (lastPlayed ?s)
                  (category_name Greeting \<mapsto> entry_file (?snds ! nat (random_index (1/2) (length ?snds))))\<rparr>)"
    by blast+
  then show ?thesis using a g by (simp add: i)
qed

text \<open>
  Claim C10. If the file names of a sound list of length at least 2 are pairwise
  distinct, the filter removes at most one entry whatever \<open>lastPlayed\<close> holds, so the
  candidates are not empty, and \<open>pickSound\<close> returns an entry for every draw in
  \<open>[0, 1)\<close>. If instead every entry of a list of length at least 2 has the file that
  \<open>lastPlayed[category]\<close> holds, the candidates are empty, the index is out of bounds and
  \<open>pickSound\<close> throws a \<open>TypeError\<close>, leaving the state as it was.
\<close>

theorem pickSound_index_in_bounds:
  "(distinct (map entry_file snds) \<and> length snds \<ge> 2 \<longrightarrow>
      length snds - 1 \<le> length (candidates snds lf) \<and> candidates snds lf \<noteq> [])
   \<and> (loadManifest env (currentPack s) = Some manifest \<and>
       map_option sounds (categories manifest (category_name category)) = Some snds \<and>
       snds \<noteq> [] \<and> distinct (map entry_file snds) \<and> 0 \<le> r \<and> r < 1 \<longrightarrow>
         (\<exists>e s'. pickSound env r category s = (Inr (Some e), s')))
   \<and> (length snds \<ge> 2 \<and> (\<forall>x\<in>set snds. Some (entry_file x) = lf) \<longrightarrow> candidates snds lf = [])
   \<and> (loadManifest env (currentPack s) = Some manifest \<and>
       map_option sounds (categories manifest (category_name category)) = Some snds \<and>
       length snds \<ge> 2 \<and>
       (\<forall>x\<in>set snds. Some (entry_file x) = lastPlayed s (category_name category)) \<longrightarrow>
         pickSound env r category s = (Inl TypeError, s))"
proof (intro conjI impI)
  assume "distinct (map entry_file snds) \<and> length snds \<ge> 2"
  then show "length snds - 1 \<le> length (candidates snds lf)"
    using candidates_length by blast
next
  assume "distinct (map entry_file snds) \<and> length snds \<ge> 2"
  then have "distinct (map entry_file snds)" "snds \<noteq> []" by auto
  then show "candidates snds lf \<noteq> []" by (rule candidates_nonempty)
next
  assume a: "loadManifest env (currentPack s) = Some manifest \<and>
       map_option sounds (categories manifest (category_name category)) = Some snds \<and>
       snds \<noteq> [] \<and> distinct (map entry_file snds) \<and> 0 \<le> r \<and> r < 1"
  let ?c = "candidates snds (lastPlayed s (category_name category))"
  from a have "?c \<noteq> []" using candidates_nonempty by blast
  with a have "0 \<le> random_index r (length ?c) \<and> random_index r (length ?c) < int (length ?c)"
    by (intro random_index_less) auto
  then show "\<exists>e s'. pickSound env r category s = (Inr (Some e), s')"
    using pickSound_draw [of env s manifest category snds r] a by (simp add: Let_def)
next
  assume "length snds \<ge> 2 \<and> (\<forall>x\<in>set snds. Some (entry_file x) = lf)"
  then show "candidates snds lf = []" by (simp add: candidates_def)
next
  assume a: "loadManifest env (currentPack s) = Some manifest \<and>
       map_option sounds (categories manifest (category_name category)) = Some snds \<and>
       length snds \<ge> 2 \<and>
       (\<forall>x\<in>set snds. Some (entry_file x) = lastPlayed s (category_name category))"
  then have c: "candidates snds (lastPlayed s (category_name category)) = []"
    by (simp add: candidates_def)
  from a have "snds \<noteq> []" by auto
  then show "pickSound env r category s = (Inl TypeError, s)"
    using pickSound_draw [of env s manifest category snds r] a c by (simp add: Let_def)
qed


theorem pickSound_index_in_bounds_witness:
  "distinct (map entry_file [\<lparr>entry_file = ''ready.wav'', entry_line = ''Ready to work?''\<rparr>,
                              \<lparr>entry_file = ''yes.wav'', entry_line = ''Yes?''\<rparr>])
   \<and> candidates [\<lparr>entry_file = ''ready.wav'', entry_line = ''Ready to work?''\<rparr>,
                  \<lparr>entry_file = ''yes.wav'', entry_line = ''Yes?''\<rparr>] (Some ''ready.wav'') \<noteq> []
   \<and> (\<exists>e s'. pickSound example_env (1/2) Greeting
                (initial_state\<lparr>lastPlayed := [''greeting'' \<mapsto> ''ready.wav'']\<rparr>)
              = (Inr (Some e), s'))
   \<and> list_all (\<lambda>x. Some (entry_file x) = Some ''busy.wav'')
         [\<lparr>entry_file = ''busy.wav'', entry_line = ''Me busy.''\<rparr>,
          \<lparr>entry_file = ''busy.wav'', entry_line = ''Leave me alone!''\<rparr>]
   \<and> candidates [\<lparr>entry_file = ''busy.wav'', entry_line = ''Me busy.''\<rparr>,
                  \<lparr>entry_file = ''busy.wav'', entry_line = ''Leave me alone!''\<rparr>] (Some ''busy.wav'') = []
   \<and> pickSound example_env (1/2) Annoyed
        (initial_state\<lparr>lastPlayed := [''annoyed'' \<mapsto> ''busy.wav'']\<rparr>)
       = (Inl TypeError, initial_state\<lparr>lastPlayed := [''annoyed'' \<mapsto> ''busy.wav'']\<rparr>)"
proof -
  let ?g = "[\<lparr>entry_file = ''ready.wav'', entry_line = ''Ready to work?''\<rparr>,
             \<lparr>entry_file = ''yes.wav'', entry_line = ''Yes?''\<rparr>]"
  let ?a = "[\<lparr>entry_file = ''busy.wav'', entry_line = ''Me busy.''\<rparr>,
             \<lparr>entry_file = ''busy.wav'', entry_line = ''Leave me alone!''\<rparr>]"
  let ?s = "initial_state\<lparr>lastPlayed := [''greeting'' \<mapsto> ''ready.wav'']\<rparr>"
  let ?t = "initial_state\<lparr>lastPlayed := [''annoyed'' \<mapsto> ''busy.wav'']\<rparr>"
  have d: "distinct (map entry_file ?g) \<and> length ?g \<ge> 2" by simp
  have h2: "loadManifest example_env (currentPack ?s) = Some peon_manifest \<and>
       map_option sounds (categories peon_manifest (category_name Greeting)) = Some ?g \<and>
       ?g \<noteq> [] \<and> distinct (map entry_file ?g) \<and> (0::real) \<le> 1/2 \<and> (1/2::real) < 1"
    by (simp add: example_load initial_state_def peon_manifest_def)
  have h3: "length ?a \<ge> 2 \<and> (\<forall>x\<in>set ?a. Some (entry_file x) = Some ''busy.wav'')" by simp
  have h4: "loadManifest example_env (currentPack ?t) = Some peon_manifest \<and>
       map_option sounds (categories peon_manifest (category_name Annoyed)) = Some ?a \<and>
       length ?a \<ge> 2 \<and>
       (\<forall>x\<in>set ?a. Some (entry_file x) = lastPlayed ?t (category_name Annoyed))"
    by (simp add: example_load initial_state_def peon_manifest_def)
  have t1: "candidates ?g (Some ''ready.wav'') \<noteq> []"
    using pickSound_index_in_bounds [of ?g "Some ''ready.wav''"] d by blast
  have t2: "\<exists>e s'. pickSound example_env (1/2) Greeting ?s = (Inr (Some e), s')"
    using pickSound_index_in_bounds [of ?g _ example_env ?s peon_manifest Greeting "1/2"] h2
    by blast
  have t3: "candidates ?a (Some ''busy.wav'') = []"
    using pickSound_index_in_bounds [of ?a "Some ''busy.wav''"] h3 by blast
  have t4: "pickSound example_env (1/2) Annoyed ?t = (Inl TypeError, ?t)"
    using pickSound_index_in_bounds [of ?a _ example_env ?t peon_manifest Annoyed "1/2"] h4
    by blast
  show ?thesis using d h3 t1 t2 t3 t4 by (simp add: list_all_iff)
qed

subsection \<open>A selected sound without its audio file\<close>

text \<open>
  Claim C7, as amended. When \<open>playSound\<close> is not muted and the platform is macOS, and the
  file of the selected sound does not exist, the call returns \<open>null\<close> and starts no
  playback, as when no sound is found; but the selection has been recorded:
  \<open>lastPlayed[category]\<close> is the file of the selected sound and nothing else of the state
  has changed, whereas when no sound is found the state is unchanged.
\<close>

theorem playSound_missing_asset:
  "\<not> muted s \<and> IS_MACOS env \<longrightarrow>
     (pickSound env r category s = (Inr (Some e), s1) \<and>
      \<not> existsSync env (path_join [PACKS_DIR env, currentPack s, ''sounds'', entry_file e]) \<longrightarrow>
        playSound env r category s = (Inr None, s1, []) \<and>
        s1 = s\<lparr>lastPlayed := (lastPlayed s)(category_name category \<mapsto> entry_file e)\<rparr> \<and>
        lastPlayed s1 (category_name category) = Some (entry_file e))
     \<and> (pickSound env r category s = (Inr None, s1) \<longrightarrow>
          playSound env r category s = (Inr None, s, []))"
proof (intro impI conjI)
  assume g: "\<not> muted s \<and> IS_MACOS env"
  assume p: "pickSound env r category s = (Inr (Some e), s1) \<and>
      \<not> existsSync env (path_join [PACKS_DIR env, currentPack s, ''sounds'', entry_file e])"
  then have k: "currentPack s1 = currentPack s" using pickSound_keeps by blast
  from p pickSound_Some_shape [of env r category s e s1]
  show s1: "s1 = s\<lparr>lastPlayed := (lastPlayed s)(category_name category \<mapsto> entry_file e)\<rparr>"
    by blast
  then show "lastPlayed s1 (category_name category) = Some (entry_file e)" by simp
  show "playSound env r category s = (Inr None, s1, [])"
    using g p k by (simp add: playSound_def)
next
  assume g: "\<not> muted s \<and> IS_MACOS env"
  assume p: "pickSound env r category s = (Inr None, s1)"
  then have "s1 = s" by (rule pickSound_None_state)
  with g p show "playSound env r category s = (Inr None, s, [])"
    by (simp add: playSound_def)
qed

text \<open>
  Counterexample to claim C7 as first stated, which asks for the same \<open>lastPlayed\<close> after a missing asset as after
  no sound found. In the concrete installation the only \<open>error\<close> sound has no file: the
  call returns \<open>null\<close> without playback, and \<open>lastPlayed[error]\<close>, unset before, is
  \<open>gone.wav\<close> after; the \<open>permission\<close> category has no sounds, and there the state is
  unchanged.
\<close>

theorem playSound_missing_asset_counterexample:
  "\<not> muted initial_state \<and> IS_MACOS example_env
   \<and> pickSound example_env 0 Error initial_state
       = (Inr (Some \<lparr>entry_file = ''gone.wav'', entry_line = ''Me not that kind of orc!''\<rparr>),
          initial_state\<lparr>lastPlayed := [''error'' \<mapsto> ''gone.wav'']\<rparr>)
   \<and> \<not> existsSync example_env ''/ext/packs/peon/sounds/gone.wav''
   \<and> playSound example_env 0 Error initial_state
       = (Inr None, initial_state\<lparr>lastPlayed := [''error'' \<mapsto> ''gone.wav'']\<rparr>, [])
   \<and> pickSound example_env 0 Permission initial_state = (Inr None, initial_state)
   \<and> playSound example_env 0 Permission initial_state = (Inr None, initial_state, [])
   \<and> lastPlayed initial_state ''error'' = None
   \<and> lastPlayed (fst (snd (playSound example_env 0 Error initial_state))) ''error''
       = Some ''gone.wav''"
proof -
  have p: "pickSound example_env 0 Error initial_state
       = (Inr (Some \<lparr>entry_file = ''gone.wav'', entry_line = ''Me not that kind of orc!''\<rparr>),
          initial_state\<lparr>lastPlayed := [''error'' \<mapsto> ''gone.wav'']\<rparr>)"
    by (simp add: pickSound_def example_load peon_manifest_def candidates_def random_index_def
        initial_state_def)
  have q: "pickSound example_env 0 Permission initial_state = (Inr None, initial_state)"
    by (simp add: pickSound_def example_load peon_manifest_def initial_state_def)
  have g: "\<not> muted initial_state \<and> IS_MACOS example_env"
    by (simp add: initial_state_def example_env_def)
  have x: "\<not> existsSync example_env ''/ext/packs/peon/sounds/gone.wav''"
    by (simp add: example_env_def)
  have a: "playSound example_env 0 Error initial_state
       = (Inr None, initial_state\<lparr>lastPlayed := [''error'' \<mapsto> ''gone.wav'']\<rparr>, [])"
    using g by (simp add: playSound_def p) (simp add: initial_state_def example_env_def)
  have b: "playSound example_env 0 Permission initial_state = (Inr None, initial_state, [])"
    using g by (simp add: playSound_def q)
  have c: "lastPlayed initial_state ''error'' = None" by (simp add: initial_state_def)
  show ?thesis using p q g x a b c by simp
qed

theorem playSound_missing_asset_witness:
  "\<not> muted initial_state \<and> IS_MACOS example_env
   \<and> \<not> existsSync example_env
         (path_join [PACKS_DIR example_env, currentPack initial_state, ''sounds'', ''gone.wav''])
   \<and> playSound example_env 0 Error initial_state
       = (Inr None, initial_state\<lparr>lastPlayed := [''error'' \<mapsto> ''gone.wav'']\<rparr>, [])
   \<and> playSound example_env 0 Permission initial_state = (Inr None, initial_state, [])"
proof -
  let ?e = "\<lparr>entry_file = ''gone.wav'', entry_line = ''Me not that kind of orc!''\<rparr>"
  let ?s1 = "initial_state\<lparr>lastPlayed := [''error'' \<mapsto> ''gone.wav'']\<rparr>"
  have p: "pickSound example_env 0 Error initial_state = (Inr (Some ?e), ?s1)"
    by (simp add: pickSound_def example_load peon_manifest_def candidates_def random_index_def
        initial_state_def)
  have q: "pickSound example_env 0 Permission initial_state = (Inr None, initial_state)"
    by (simp add: pickSound_def example_load peon_manifest_def initial_state_def)
  have g: "\<not> muted initial_state \<and> IS_MACOS example_env"
    by (simp add: initial_state_def example_env_def)
  have x: "\<not> existsSync example_env
         (path_join [PACKS_DIR example_env, currentPack initial_state, ''sounds'', entry_file ?e])"
    by (simp add: example_env_def initial_state_def)
  have a: "playSound example_env 0 Error initial_state = (Inr None, ?s1, [])"
    using playSound_missing_asset [of initial_state example_env 0 Error ?e ?s1] g p x by blast
  have b: "playSound example_env 0 Permission initial_state = (Inr None, initial_state, [])"
    using playSound_missing_asset [of initial_state example_env 0 Permission _ initial_state] g q
    by blast
  show ?thesis using g x a b by simp
qed




subsection \<open>The volume command\<close>

lemma in_range_iff:
  "(\<not> isNaN v \<and> ge_zero v \<and> le_one v) = (\<exists>x. v = Fin x \<and> 0 \<le> x \<and> x \<le> 1)"
  by (cases v) auto

lemma out_of_range_iff:
  "(isNaN v \<or> lt_zero v \<or> gt_one v) = (\<not> (\<exists>x. v = Fin x \<and> 0 \<le> x \<and> x \<le> 1))"
  by (cases v) auto

lemma volume_accept_result:
  assumes "volume_accept env r v s = (res, s', fx)"
  shows "volume s' = v \<and> Notify (MsgVolumeSet v) Info \<in> set fx \<and>
         Notify MsgInvalidVolume Err \<notin> set fx"
proof -
  obtain pr ps pf where p: "playSound env r Greeting (s\<lparr>volume := v\<rparr>) = (pr, ps, pf)"
    by (metis prod_cases3)
  from assms p have e: "s' = ps" "fx = Notify (MsgVolumeSet v) Info # pf"
    by (auto simp: volume_accept_def Let_def split: sum.splits)
  from playSound_keeps [OF p] have "volume ps = v" by simp
  moreover from playSound_effects [OF p] have "Notify MsgInvalidVolume Err \<notin> set pf" by blast
  ultimately show ?thesis using e by simp
qed

lemma parse_examples:
  "parseFloat_decimal ''0.5'' = Fin (1/2)"
  "parseFloat_decimal ''1.5'' = Fin (3/2)"
  "parseFloat_decimal ''-0.1'' = Fin (-1/10)"
  "parseFloat_decimal ''abc'' = NaN"
  by (simp_all add: parseFloat_decimal_def isWhiteSpace_def isDigit_def digitsValue_def scale10_def)

text \<open>
  Claim C6, as amended. The \<open>/wc3-volume\<close> handler takes its value from the inline
  argument or, failing that, from a prompt. A non-empty inline argument that parses to
  a number \<open>v\<close> with \<open>0 \<le> v \<le> 1\<close> is accepted: \<open>volume\<close> becomes \<open>v\<close>, without a prompt and
  without an error. Otherwise the handler asks: a cancelled prompt changes nothing and
  signals nothing; an answer that parses to \<open>v\<close> with \<open>0 \<le> v \<le> 1\<close> sets \<open>volume\<close> to \<open>v\<close>;
  any other answer (out of range, or not a number) leaves the state unchanged and
  signals an input error. So \<open>0.5\<close> is accepted, inline or as the answer, and \<open>volume\<close>
  becomes 0.5, while \<open>1.5\<close>, \<open>-0.1\<close> and \<open>abc\<close> as the answer are each rejected with an
  error and \<open>volume\<close> unchanged.
\<close>

theorem wc3_volume_rules:
  "(args \<noteq> [] \<and> parseFloat env args = Fin v \<and> 0 \<le> v \<and> v \<le> 1 \<and>
    wc3_volume env r args input s = (res, s', fx) \<longrightarrow>
      volume s' = Fin v \<and> Notify (MsgVolumeSet (Fin v)) Info \<in> set fx \<and>
      Notify MsgInvalidVolume Err \<notin> set fx \<and> InputPrompt (volume s) \<notin> set fx)
   \<and> (\<not> (args \<noteq> [] \<and> (\<exists>x. parseFloat env args = Fin x \<and> 0 \<le> x \<and> x \<le> 1)) \<longrightarrow>
        wc3_volume env r args None s = (None, s, [InputPrompt (volume s)])
        \<and> (parseFloat env inp = Fin v \<and> 0 \<le> v \<and> v \<le> 1 \<and>
           wc3_volume env r args (Some inp) s = (res, s', fx) \<longrightarrow>
             volume s' = Fin v \<and> Notify (MsgVolumeSet (Fin v)) Info \<in> set fx \<and>
             Notify MsgInvalidVolume Err \<notin> set fx)
        \<and> (\<not> (\<exists>x. parseFloat env inp = Fin x \<and> 0 \<le> x \<and> x \<le> 1) \<longrightarrow>
             wc3_volume env r args (Some inp) s =
               (None, s, [InputPrompt (volume s), Notify MsgInvalidVolume Err])))
   \<and> volume (fst (snd (wc3_volume example_env r ''0.5'' input s))) = Fin (1/2)
   \<and> volume (fst (snd (wc3_volume example_env r '''' (Some ''0.5'') s))) = Fin (1/2)
   \<and> wc3_volume example_env r '''' (Some ''1.5'') s =
        (None, s, [InputPrompt (volume s), Notify MsgInvalidVolume Err])
   \<and> wc3_volume example_env r '''' (Some ''-0.1'') s =
        (None, s, [InputPrompt (volume s), Notify MsgInvalidVolume Err])
   \<and> wc3_volume example_env r '''' (Some ''abc'') s =
        (None, s, [InputPrompt (volume s), Notify MsgInvalidVolume Err])"
proof (intro conjI impI)
  assume a: "args \<noteq> [] \<and> parseFloat env args = Fin v \<and> 0 \<le> v \<and> v \<le> 1 \<and>
    wc3_volume env r args input s = (res, s', fx)"
  then have w: "volume_accept env r (Fin v) s = (res, s', fx)"
    by (auto simp: wc3_volume_def Let_def)
  from volume_accept_result [OF w]
  show "volume s' = Fin v" "Notify (MsgVolumeSet (Fin v)) Info \<in> set fx"
    "Notify MsgInvalidVolume Err \<notin> set fx" by simp_all
  obtain pr ps pf where p: "playSound env r Greeting (s\<lparr>volume := Fin v\<rparr>) = (pr, ps, pf)"
    by (metis prod_cases3)
  with w have "fx = Notify (MsgVolumeSet (Fin v)) Info # pf"
    by (auto simp: volume_accept_def Let_def split: sum.splits)
  moreover from p have "InputPrompt (volume s) \<notin> set pf"
    by (auto simp: playSound_def Let_def split: sum.splits option.splits if_splits prod.splits)
  ultimately show "InputPrompt (volume s) \<notin> set fx" by simp
next
  assume n: "\<not> (args \<noteq> [] \<and> (\<exists>x. parseFloat env args = Fin x \<and> 0 \<le> x \<and> x \<le> 1))"
  then have "\<not> (args \<noteq> [] \<and>
      (\<not> isNaN (parseFloat env args) \<and> ge_zero (parseFloat env args) \<and> le_one (parseFloat env args)))"
    by (simp only: in_range_iff not_False_eq_True)
  then show "wc3_volume env r args None s = (None, s, [InputPrompt (volume s)])"
    by (simp only: wc3_volume_def Let_def if_False option.case)
next
  assume n: "\<not> (args \<noteq> [] \<and> (\<exists>x. parseFloat env args = Fin x \<and> 0 \<le> x \<and> x \<le> 1))"
  assume a: "parseFloat env inp = Fin v \<and> 0 \<le> v \<and> v \<le> 1 \<and>
           wc3_volume env r args (Some inp) s = (res, s', fx)"
  obtain e2 s2 fx2 where w: "volume_accept env r (Fin v) s = (e2, s2, fx2)"
    by (metis prod_cases3)
  from n have c: "\<not> (args \<noteq> [] \<and>
      (\<not> isNaN (parseFloat env args) \<and> ge_zero (parseFloat env args) \<and> le_one (parseFloat env args)))"
    by (simp only: in_range_iff not_False_eq_True)
  from a have "wc3_volume env r args (Some inp) s = (e2, s2, InputPrompt (volume s) # fx2)"
    using c w by (simp only: wc3_volume_def Let_def if_False option.case) simp
  with a have "s' = s2 \<and> fx = InputPrompt (volume s) # fx2" by simp
  with volume_accept_result [OF w]
  show "volume s' = Fin v" "Notify (MsgVolumeSet (Fin v)) Info \<in> set fx"
    "Notify MsgInvalidVolume Err \<notin> set fx" by simp_all
next
  assume n: "\<not> (args \<noteq> [] \<and> (\<exists>x. parseFloat env args = Fin x \<and> 0 \<le> x \<and> x \<le> 1))"
  assume b: "\<not> (\<exists>x. parseFloat env inp = Fin x \<and> 0 \<le> x \<and> x \<le> 1)"
  from b have "isNaN (parseFloat env inp) \<or> lt_zero (parseFloat env inp) \<or>
      gt_one (parseFloat env inp)"
    by (simp only: out_of_range_iff not_False_eq_True)
  moreover from n have "\<not> (args \<noteq> [] \<and>
      (\<not> isNaN (parseFloat env args) \<and> ge_zero (parseFloat env args) \<and> le_one (parseFloat env args)))"
    by (simp only: in_range_iff not_False_eq_True)
  ultimately show "wc3_volume env r args (Some inp) s =
               (None, s, [InputPrompt (volume s), Notify MsgInvalidVolume Err])"
    by (simp only: wc3_volume_def Let_def if_False if_True option.case)
next
  obtain e2 s2 fx2 where w: "volume_accept example_env r (Fin (1/2)) s = (e2, s2, fx2)"
    by (metis prod_cases3)
  have "wc3_volume example_env r ''0.5'' input s = (e2, s2, fx2)"
    using w by (simp add: wc3_volume_def example_env_def parse_examples)
  with volume_accept_result [OF w]
  show "volume (fst (snd (wc3_volume example_env r ''0.5'' input s))) = Fin (1/2)" by simp
next
  obtain e2 s2 fx2 where w: "volume_accept example_env r (Fin (1/2)) s = (e2, s2, fx2)"
    by (metis prod_cases3)
  have "wc3_volume example_env r '''' (Some ''0.5'') s = (e2, s2, InputPrompt (volume s) # fx2)"
    using w by (simp add: wc3_volume_def example_env_def parse_examples)
  with volume_accept_result [OF w]
  show "volume (fst (snd (wc3_volume example_env r '''' (Some ''0.5'') s))) = Fin (1/2)" by simp
next
  show "wc3_volume example_env r '''' (Some ''1.5'') s =
        (None, s, [InputPrompt (volume s), Notify MsgInvalidVolume Err])"
    by (simp add: wc3_volume_def example_env_def parse_examples)
next
  show "wc3_volume example_env r '''' (Some ''-0.1'') s =
        (None, s, [InputPrompt (volume s), Notify MsgInvalidVolume Err])"
    by (simp add: wc3_volume_def example_env_def parse_examples)
next
  show "wc3_volume example_env r '''' (Some ''abc'') s =
        (None, s, [InputPrompt (volume s), Notify MsgInvalidVolume Err])"
    by (simp add: wc3_volume_def example_env_def parse_examples)
qed


text \<open>
  Counterexample to claim C6 as first stated, by which non-numeric input is rejected
  with an input error signalled. Given inline, \<open>abc\<close> is not a number, so the handler
  asks; when the prompt is cancelled the handler returns at once: \<open>volume\<close> is unchanged,
  and no error is signalled.
\<close>

theorem wc3_volume_rules_counterexample:
  "parseFloat example_env ''abc'' = NaN
   \<and> volume initial_state = Fin (1/2)
   \<and> wc3_volume example_env 0 ''abc'' None initial_state
       = (None, initial_state, [InputPrompt (Fin (1/2))])
   \<and> Notify MsgInvalidVolume Err
       \<notin> set (snd (snd (wc3_volume example_env 0 ''abc'' None initial_state)))"
proof -
  have a: "parseFloat example_env ''abc'' = NaN"
    by (simp add: example_env_def parse_examples)
  have v: "volume initial_state = Fin (1/2)" by (simp add: initial_state_def)
  have w: "wc3_volume example_env 0 ''abc'' None initial_state
       = (None, initial_state, [InputPrompt (Fin (1/2))])"
    by (simp add: wc3_volume_def a v)
  show ?thesis using a v w by simp
qed

theorem wc3_volume_rules_witness:
  "''0.5'' \<noteq> [] \<and> parseFloat example_env ''0.5'' = Fin (1/2) \<and> (0::real) \<le> 1/2 \<and> (1/2::real) \<le> 1
   \<and> volume (fst (snd (wc3_volume example_env 0 ''0.5'' None (initial_state\<lparr>volume := Fin 1\<rparr>))))
       = Fin (1/2)
   \<and> \<not> (''abc'' \<noteq> [] \<and> (\<exists>x. parseFloat example_env ''abc'' = Fin x \<and> 0 \<le> x \<and> x \<le> 1))
   \<and> wc3_volume example_env 0 ''abc'' None initial_state
       = (None, initial_state, [InputPrompt (volume initial_state)])
   \<and> parseFloat example_env ''0.3'' = Fin (3/10)
   \<and> volume (fst (snd (wc3_volume example_env 0 ''abc'' (Some ''0.3'') initial_state))) = Fin (3/10)
   \<and> \<not> (\<exists>x. parseFloat example_env ''1.5'' = Fin x \<and> 0 \<le> x \<and> x \<le> 1)
   \<and> wc3_volume example_env 0 ''abc'' (Some ''1.5'') initial_state
       = (None, initial_state, [InputPrompt (volume initial_state), Notify MsgInvalidVolume Err])"
proof -
  let ?s1 = "initial_state\<lparr>volume := Fin 1\<rparr>"
  let ?x = "wc3_volume example_env 0 ''0.5'' None ?s1"
  let ?y = "wc3_volume example_env 0 ''abc'' (Some ''0.3'') initial_state"
  have p1: "parseFloat example_env ''0.5'' = Fin (1/2)"
    by (simp add: example_env_def parse_examples)
  have p2: "parseFloat example_env ''abc'' = NaN"
    by (simp add: example_env_def parse_examples)
  have p3: "parseFloat example_env ''0.3'' = Fin (3/10)"
    by (simp add: example_env_def parseFloat_decimal_def isWhiteSpace_def isDigit_def
        digitsValue_def scale10_def)
  have p4: "parseFloat example_env ''1.5'' = Fin (3/2)"
    by (simp add: example_env_def parse_examples)
  have n: "\<not> (''abc'' \<noteq> [] \<and> (\<exists>x. parseFloat example_env ''abc'' = Fin x \<and> 0 \<le> x \<and> x \<le> 1))"
    by (simp add: p2)
  have m: "\<not> (\<exists>x. parseFloat example_env ''1.5'' = Fin x \<and> 0 \<le> x \<and> x \<le> 1)"
    by (simp add: p4)
  have t1: "volume (fst (snd ?x)) = Fin (1/2)"
    using wc3_volume_rules
      [of "''0.5''" example_env "1/2" 0 None ?s1 "fst ?x" "fst (snd ?x)" "snd (snd ?x)"] p1
    by simp
  have t2: "wc3_volume example_env 0 ''abc'' None initial_state
       = (None, initial_state, [InputPrompt (volume initial_state)])"
    using wc3_volume_rules [of "''abc''" example_env _ 0 _ initial_state] n by blast
  have t3: "volume (fst (snd ?y)) = Fin (3/10)"
    using wc3_volume_rules
      [of "''abc''" example_env "3/10" 0 _ initial_state "fst ?y" "fst (snd ?y)" "snd (snd ?y)"
          "''0.3''"] n p3
    by simp
  have t4: "wc3_volume example_env 0 ''abc'' (Some ''1.5'') initial_state
       = (None, initial_state, [InputPrompt (volume initial_state), Notify MsgInvalidVolume Err])"
    using wc3_volume_rules [of "''abc''" example_env _ 0 _ initial_state _ _ _ "''1.5''"] n m
    by blast
  show ?thesis using p1 p3 n m t1 t2 t3 t4 by simp
qed

end
